theory Spec2Isabelle
  imports Complex_Main "HOL-Library.AList"
begin

section \<open>Python values\<close>

text \<open>
  A Python \<open>str\<close> is a sequence of Unicode code points, so it is modelled as a list of
  natural numbers; \<open>py\<close> turns an ASCII literal of the source into that form.
\<close>

type_synonym pystr = "nat list"

definition py :: "string \<Rightarrow> pystr" where
  "py s = map of_char s"

text \<open>
  A Python \<open>float\<close>: the finite values are rationals, and the three special values
  that \<open>json.loads\<close> accepts (\<open>NaN\<close>, \<open>Infinity\<close>, \<open>-Infinity\<close>) are kept apart.
\<close>

datatype pyfloat = Finite rat | PosInf | NegInf | NaN

fun flt_less :: "pyfloat \<Rightarrow> pyfloat \<Rightarrow> bool" where
  "flt_less NaN _ = False"
| "flt_less _ NaN = False"
| "flt_less (Finite a) (Finite b) = (a < b)"
| "flt_less (Finite _) PosInf = True"
| "flt_less (Finite _) NegInf = False"
| "flt_less PosInf _ = False"
| "flt_less NegInf NegInf = False"
| "flt_less NegInf _ = True"

text \<open>
  The builtins \<open>min(a, b)\<close> and \<open>max(a, b)\<close> keep the first argument unless the second
  one is strictly smaller (larger); a comparison with \<open>NaN\<close> is false.
\<close>

definition py_min :: "pyfloat \<Rightarrow> pyfloat \<Rightarrow> pyfloat" where
  "py_min a b = (if flt_less b a then b else a)"

definition py_max :: "pyfloat \<Rightarrow> pyfloat \<Rightarrow> pyfloat" where
  "py_max a b = (if flt_less a b then b else a)"

text \<open>The values \<open>json.loads\<close> produces. A dict is an association list read with \<open>map_of\<close>.\<close>

datatype json =
    JNull
  | JBool bool
  | JInt int
  | JFloat pyfloat
  | JStr pystr
  | JList "json list"
  | JDict "(pystr \<times> json) list"

type_synonym pydict = "(pystr \<times> json) list"

text \<open>The subclasses of \<open>sqlite3.Error\<close> that the storage layer raises.\<close>

datatype sqlite_error = OperationalError | IntegrityError | ProgrammingError

datatype exn =
    TypeError
  | KeyError
  | OverflowError
  | UnicodeEncodeError
  | JSONDecodeError
  | UpstreamError
  | SqliteError sqlite_error

text \<open>\<open>isinstance(v, (int, float))\<close>; \<open>bool\<close> is a subclass of \<open>int\<close>.\<close>

fun is_number :: "json \<Rightarrow> bool" where
  "is_number (JBool _) = True"
| "is_number (JInt _) = True"
| "is_number (JFloat _) = True"
| "is_number _ = False"

text \<open>
  \<open>float(v)\<close> for a value that passed \<open>is_number\<close>. An \<open>int\<close> whose nearest double
  would exceed the largest finite double raises \<open>OverflowError\<close>; below that bound the
  conversion rounds to the nearest double, which is monotone and fixes 0 and 1, so the
  clamp that follows gives the same result on the exact value kept here.
\<close>

definition float_overflow_bound :: int where
  "float_overflow_bound = 2 ^ 1024 - 2 ^ 970"

fun py_float :: "json \<Rightarrow> exn + pyfloat" where
  "py_float (JBool b) = Inr (Finite (if b then 1 else 0))"
| "py_float (JInt n) =
     (if float_overflow_bound \<le> \<bar>n\<bar> then Inl OverflowError else Inr (Finite (of_int n)))"
| "py_float (JFloat f) = Inr f"
| "py_float _ = Inl TypeError"

section \<open>String operations of the Python runtime\<close>

fun startswith :: "pystr \<Rightarrow> pystr \<Rightarrow> bool" where
  "startswith s [] = True"
| "startswith [] (p # ps) = False"
| "startswith (c # cs) (p # ps) = (c = p \<and> startswith cs ps)"

text \<open>\<open>s.find(sub)\<close>: the index of the first occurrence, or \<open>-1\<close>.\<close>

fun find_from :: "nat \<Rightarrow> pystr \<Rightarrow> pystr \<Rightarrow> int" where
  "find_from i [] sub = (if sub = [] then int i else - 1)"
| "find_from i (c # cs) sub =
     (if startswith (c # cs) sub then int i else find_from (Suc i) cs sub)"

definition find :: "pystr \<Rightarrow> pystr \<Rightarrow> int" where
  "find s sub = find_from 0 s sub"

text \<open>\<open>s.rfind(sub)\<close>: the index of the last occurrence, or \<open>-1\<close>.\<close>

fun rfind_from :: "nat \<Rightarrow> pystr \<Rightarrow> pystr \<Rightarrow> int" where
  "rfind_from i [] sub = (if sub = [] then int i else - 1)"
| "rfind_from i (c # cs) sub =
     (let r = rfind_from (Suc i) cs sub
      in if r \<noteq> - 1 then r else if startswith (c # cs) sub then int i else - 1)"

definition rfind :: "pystr \<Rightarrow> pystr \<Rightarrow> int" where
  "rfind s sub = rfind_from 0 s sub"

text \<open>\<open>sub in s\<close> for two strings.\<close>

definition contains :: "pystr \<Rightarrow> pystr \<Rightarrow> bool" where
  "contains s sub = (find s sub \<noteq> - 1)"

text \<open>\<open>s[a:b]\<close>: a negative index counts from the end, both are clamped to the string.\<close>

definition slice_index :: "nat \<Rightarrow> int \<Rightarrow> nat" where
  "slice_index n i = (if i < 0 then nat (int n + i) else min n (nat i))"

definition slice :: "pystr \<Rightarrow> int \<Rightarrow> int \<Rightarrow> pystr" where
  "slice s a b = drop (slice_index (length s) a) (take (slice_index (length s) b) s)"

text \<open>The code points for which \<open>str.isspace\<close> holds, which \<open>str.strip()\<close> removes.\<close>

definition isspace :: "nat \<Rightarrow> bool" where
  "isspace c \<longleftrightarrow>
     (9 \<le> c \<and> c \<le> 13) \<or> (28 \<le> c \<and> c \<le> 32) \<or> c = 133 \<or> c = 160 \<or> c = 5760 \<or>
     (8192 \<le> c \<and> c \<le> 8202) \<or> c = 8232 \<or> c = 8233 \<or> c = 8239 \<or> c = 8287 \<or> c = 12288"

definition strip :: "pystr \<Rightarrow> pystr" where
  "strip s = rev (dropWhile isspace (rev (dropWhile isspace s)))"

section \<open>The answer evaluation of \<open>llm.py\<close>\<close>

text \<open>
  \<open>AIService.evaluate_answer\<close>. Two functions of the Python runtime that the source calls
  are parameters of the model: \<open>loads\<close> is \<open>json.loads\<close> (its \<open>Inl\<close> is any exception it
  raises) and \<open>lower\<close> is \<open>str.lower\<close>. The request to the AI provider is the argument
  \<open>upstream\<close>: the content of the reply, or the exception raised on the way to it
  (no API key, a failed request, a reply without content).
\<close>

definition fence_json :: pystr where
  "fence_json = py ''```json''"

definition fence :: pystr where
  "fence = py ''```''"

text \<open>Lines 230 to 241: the text between code-fence markers, when there are any.\<close>

definition unfence :: "pystr \<Rightarrow> pystr" where
  "unfence t =
     (if contains t fence_json then
        (let start = find t fence_json + int (length fence_json);
             end = rfind t fence
         in if start \<noteq> - 1 \<and> end \<noteq> - 1 then strip (slice t start end) else t)
      else if contains t fence then
        (let start = find t fence + int (length fence);
             end = rfind t fence
         in if start \<noteq> - 1 \<and> end \<noteq> - 1 then strip (slice t start end) else t)
      else t)"

definition parse_failure_result :: pydict where
  "parse_failure_result =
     [(py ''score'', JFloat (Finite (1 / 2))),
      (py ''feedback'',
         JStr (py ''Your answer was evaluated, but we couldn't generate detailed feedback.'')),
      (py ''suggestions'',
         JList [JStr (py ''Address the key points in the question''),
                JStr (py ''Provide specific examples to support your answer''),
                JStr (py ''Structure your response with clear organization'')])]"

definition error_result :: pydict where
  "error_result =
     [(py ''score'', JFloat (Finite (1 / 2))),
      (py ''feedback'', JStr (py ''We encountered a problem evaluating your answer.'')),
      (py ''suggestions'',
         JList [JStr (py ''Ensure your answer addresses the question directly''),
                JStr (py ''Include specific examples and details''),
                JStr (py ''Check your answer's organization and clarity'')])]"

text \<open>
  Lines 228 to 267: parse the reply, and on failure parse the text from the first \<open>{\<close>
  to the last \<open>}\<close>. \<open>None\<close> is the early return of the parse-failure result.
\<close>

definition extract_json :: "(pystr \<Rightarrow> exn + json) \<Rightarrow> pystr \<Rightarrow> json option" where
  "extract_json loads t =
     (let t' = unfence t
      in case loads t' of
           Inr ev \<Rightarrow> Some ev
         | Inl e \<Rightarrow>
             (let start = find t' (py ''{'');
                  end = rfind t' (py ''}'') + 1
              in if start \<noteq> - 1 \<and> end > start then
                   (case loads (slice t' start end) of
                      Inr ev \<Rightarrow> Some ev
                    | Inl e2 \<Rightarrow> None)
                 else None))"

definition default_feedback :: pystr where
  "default_feedback = py ''The answer could be improved for clarity and relevance.''"

definition default_suggestions :: "pystr list" where
  "default_suggestions =
     [py ''Focus on addressing the main points of the question'',
      py ''Add more specific details and examples'',
      py ''Improve the overall structure of your answer'']"

definition suspicious_chars :: "pystr list" where
  "suspicious_chars = [[65292], [12290], [23398], [29983], [12298], [12299], [35831], [20320]]"

definition suspicious_words :: "pystr list" where
  "suspicious_words = [py ''script'', py ''refresh'', py ''student'', py ''click'']"

text \<open>Lines 290 to 309: the loop that filters and cleans the suggestions.\<close>

fun clean_suggestions :: "(pystr \<Rightarrow> pystr) \<Rightarrow> json list \<Rightarrow> pystr list" where
  "clean_suggestions lower [] = []"
| "clean_suggestions lower (JStr s # rest) =
     (let text = strip s
      in if text = [] then clean_suggestions lower rest
         else if list_ex (\<lambda>ch. contains text ch) suspicious_chars
           then clean_suggestions lower rest
         else if list_ex (\<lambda>word. contains (lower text) word) suspicious_words
           then clean_suggestions lower rest
         else text # clean_suggestions lower rest)"
| "clean_suggestions lower (_ # rest) = clean_suggestions lower rest"

text \<open>Lines 330 to 333: append the first default that is not yet in the list.\<close>

fun append_missing :: "pystr list \<Rightarrow> pystr list \<Rightarrow> pystr list" where
  "append_missing [] s = s"
| "append_missing (d # ds) s = (if d \<notin> set s then s @ [d] else append_missing ds s)"

lemma append_missing_length:
  "\<exists>d \<in> set ds. d \<notin> set s \<Longrightarrow> length (append_missing ds s) = Suc (length s)"
  by (induction ds) auto

lemma default_suggestions_distinct: "distinct default_suggestions"
  by (simp add: default_suggestions_def py_def)

lemma default_missing:
  assumes "length s < 3"
  shows "\<exists>d \<in> set default_suggestions. d \<notin> set s"
proof (rule ccontr)
  assume "\<not> ?thesis"
  then have "set default_suggestions \<subseteq> set s" by blast
  then have "card (set default_suggestions) \<le> card (set s)"
    by (simp add: card_mono)
  moreover have "card (set default_suggestions) = 3"
    using default_suggestions_distinct distinct_card [of default_suggestions]
    by (simp add: default_suggestions_def)
  moreover have "card (set s) \<le> length s" by (rule card_length)
  ultimately show False using assms by linarith
qed

text \<open>Lines 329 to 335: the loop that fills the list up to three suggestions.\<close>

function pad_suggestions :: "pystr list \<Rightarrow> pystr list" where
  "pad_suggestions s =
     (if length s < 3 then
        (let s' = append_missing default_suggestions s
         in if length s' \<ge> 3 then s' else pad_suggestions s')
      else s)"
  by pat_completeness auto
termination
proof (relation "measure (\<lambda>s. 3 - length s)")
  show "wf (measure (\<lambda>s. 3 - length s))" by simp
next
  fix s s' :: "pystr list"
  assume "length s < 3" and "s' = append_missing default_suggestions s"
  then show "(s', s) \<in> measure (\<lambda>s. 3 - length s)"
    using append_missing_length [OF default_missing, of s] by simp
qed

declare pad_suggestions.simps [simp del]

definition dict_set :: "pydict \<Rightarrow> pystr \<Rightarrow> json \<Rightarrow> pydict" where
  "dict_set d k v = AList.update k v d"

text \<open>Lines 271 to 276: the score.\<close>

definition normalize_score :: "pydict \<Rightarrow> exn + pydict" where
  "normalize_score d =
     (case map_of d (py ''score'') of
        None \<Rightarrow> Inr (dict_set d (py ''score'') (JFloat (Finite (1 / 2))))
      | Some v \<Rightarrow>
          if \<not> is_number v then Inr (dict_set d (py ''score'') (JFloat (Finite (1 / 2))))
          else (case py_float v of
                  Inl e \<Rightarrow> Inl e
                | Inr f \<Rightarrow>
                    Inr (dict_set d (py ''score'')
                          (JFloat (py_max (Finite 0) (py_min (Finite 1) f))))))"

text \<open>Lines 278 and 279: the feedback.\<close>

definition normalize_feedback :: "pydict \<Rightarrow> pydict" where
  "normalize_feedback d =
     (case map_of d (py ''feedback'') of
        Some (JStr f) \<Rightarrow> d
      | _ \<Rightarrow> dict_set d (py ''feedback'') (JStr default_feedback))"

text \<open>Lines 282 to 335: the suggestions.\<close>

definition normalize_suggestions :: "(pystr \<Rightarrow> pystr) \<Rightarrow> pydict \<Rightarrow> pydict" where
  "normalize_suggestions lower d =
     (case map_of d (py ''suggestions'') of
        Some (JList xs) \<Rightarrow>
          (let cleaned = clean_suggestions lower xs;
               cleaned' = (if cleaned = [] then default_suggestions else cleaned)
           in dict_set d (py ''suggestions'') (JList (map JStr (pad_suggestions (take 3 cleaned')))))
      | _ \<Rightarrow> dict_set d (py ''suggestions'') (JList (map JStr default_suggestions)))"

text \<open>
  Lines 269 to 339. A parsed value that is not a dict raises \<open>TypeError\<close> at line 271 or
  272: \<open>in\<close> fails on a number, a bool or \<open>None\<close>, and subscripting or assigning with the
  key \<open>'score'\<close> fails on a list or a string.
\<close>

definition normalize :: "(pystr \<Rightarrow> pystr) \<Rightarrow> json \<Rightarrow> exn + pydict" where
  "normalize lower ev =
     (case ev of
        JDict d \<Rightarrow>
          (case normalize_score d of
             Inl e \<Rightarrow> Inl e
           | Inr d1 \<Rightarrow> Inr (normalize_suggestions lower (normalize_feedback d1)))
      | _ \<Rightarrow> Inl TypeError)"

definition evaluate_answer ::
  "(pystr \<Rightarrow> pystr) \<Rightarrow> (pystr \<Rightarrow> exn + json) \<Rightarrow> exn + pystr \<Rightarrow> pydict" where
  "evaluate_answer lower loads upstream =
     (case upstream of
        Inl e \<Rightarrow> error_result
      | Inr content \<Rightarrow>
          (case extract_json loads (strip content) of
             None \<Rightarrow> parse_failure_result
           | Some ev \<Rightarrow>
               (case normalize lower ev of
                  Inl e \<Rightarrow> error_result
                | Inr d \<Rightarrow> d)))"

section \<open>The output contract of the evaluation\<close>

text \<open>
  Stand-ins for the two runtime functions, for evaluating the model at a concrete reply:
  \<open>loads_table\<close> parses exactly the texts of its table, each to the value \<open>json.loads\<close>
  gives for it, and raises on any other text; \<open>ascii_lower\<close> is \<open>str.lower\<close> on ASCII.
\<close>

definition loads_table :: "(pystr \<times> json) list \<Rightarrow> pystr \<Rightarrow> exn + json" where
  "loads_table tbl t = (case map_of tbl t of Some j \<Rightarrow> Inr j | None \<Rightarrow> Inl JSONDecodeError)"

definition ascii_lower :: "pystr \<Rightarrow> pystr" where
  "ascii_lower s = map (\<lambda>c. if 65 \<le> c \<and> c \<le> 90 then c + 32 else c) s"

text \<open>The three parts of the contract, read off the returned dict.\<close>

definition score_in_unit :: "pydict \<Rightarrow> bool" where
  "score_in_unit d =
     (case map_of d (py ''score'') of
        Some (JFloat (Finite q)) \<Rightarrow> 0 \<le> q \<and> q \<le> 1
      | _ \<Rightarrow> False)"

fun nonempty_str :: "json \<Rightarrow> bool" where
  "nonempty_str (JStr s) = (s \<noteq> [])"
| "nonempty_str _ = False"

definition three_suggestions :: "pydict \<Rightarrow> bool" where
  "three_suggestions d =
     (case map_of d (py ''suggestions'') of
        Some (JList xs) \<Rightarrow> length xs = 3 \<and> list_all nonempty_str xs
      | _ \<Rightarrow> False)"

definition feedback_text :: "pydict \<Rightarrow> pystr option" where
  "feedback_text d =
     (case map_of d (py ''feedback'') of Some (JStr f) \<Rightarrow> Some f | _ \<Rightarrow> None)"

lemma map_of_dict_set:
  "map_of (dict_set d k v) k' = (if k' = k then Some v else map_of d k')"
  by (simp add: dict_set_def update_conv')

lemma key_neq:
  "py ''score'' \<noteq> py ''feedback''" "py ''score'' \<noteq> py ''suggestions''"
  "py ''feedback'' \<noteq> py ''suggestions''" "py ''feedback'' \<noteq> py ''score''"
  "py ''suggestions'' \<noteq> py ''score''" "py ''suggestions'' \<noteq> py ''feedback''"
  by (simp_all add: py_def)

lemma append_missing_set: "set (append_missing ds s) \<subseteq> set s \<union> set ds"
  by (induction ds) auto

lemma pad_suggestions_length: "length s \<le> 3 \<Longrightarrow> length (pad_suggestions s) = 3"
proof (induction s rule: pad_suggestions.induct)
  case (1 s)
  show ?case
  proof (cases "length s < 3")
    case True
    then have len: "length (append_missing default_suggestions s) = Suc (length s)"
      by (rule append_missing_length [OF default_missing])
    show ?thesis
    proof (cases "3 \<le> length (append_missing default_suggestions s)")
      case True
      with \<open>length s < 3\<close> len show ?thesis
        by (subst pad_suggestions.simps) simp
    next
      case False
      with \<open>length s < 3\<close> len "1.IH" [OF \<open>length s < 3\<close> refl False] show ?thesis
        by (subst pad_suggestions.simps) simp
    qed
  next
    case False
    with "1.prems" show ?thesis by (subst pad_suggestions.simps) simp
  qed
qed

lemma pad_suggestions_set: "set (pad_suggestions s) \<subseteq> set s \<union> set default_suggestions"
proof (induction s rule: pad_suggestions.induct)
  case (1 s)
  show ?case
  proof (cases "length s < 3")
    case True
    note lt = this
    show ?thesis
    proof (cases "3 \<le> length (append_missing default_suggestions s)")
      case True
      with lt append_missing_set [of default_suggestions s] show ?thesis
        by (subst pad_suggestions.simps) simp
    next
      case False
      with lt "1.IH" [OF lt refl False] append_missing_set [of default_suggestions s]
      show ?thesis
        by (subst pad_suggestions.simps) auto
    qed
  next
    case False
    then show ?thesis by (subst pad_suggestions.simps) simp
  qed
qed

lemma clean_suggestions_nonempty: "t \<in> set (clean_suggestions lower xs) \<Longrightarrow> t \<noteq> []"
  by (induction lower xs rule: clean_suggestions.induct) (auto simp: Let_def split: if_splits)

lemma default_suggestions_nonempty: "t \<in> set default_suggestions \<Longrightarrow> t \<noteq> []"
  by (auto simp: default_suggestions_def py_def)

lemma clamp_in_unit:
  "\<exists>q. py_max (Finite 0) (py_min (Finite 1) f) = Finite q \<and> 0 \<le> q \<and> q \<le> 1"
  by (cases f) (auto simp: py_min_def py_max_def)

lemma normalize_score_ok:
  assumes "normalize_score d = Inr d1"
  shows "score_in_unit d1"
proof -
  have half: "score_in_unit (dict_set d (py ''score'') (JFloat (Finite (1 / 2))))"
    by (simp add: score_in_unit_def map_of_dict_set)
  have clamp: "score_in_unit (dict_set d (py ''score'')
      (JFloat (py_max (Finite 0) (py_min (Finite 1) f))))" for f
    using clamp_in_unit [of f] by (auto simp: score_in_unit_def map_of_dict_set)
  from assms show ?thesis
    using half clamp
    by (auto simp: normalize_score_def split: option.splits if_splits sum.splits)
qed

lemma normalize_score_feedback:
  "normalize_score d = Inr d1 \<Longrightarrow> map_of d1 (py ''feedback'') = map_of d (py ''feedback'')"
  by (auto simp: normalize_score_def map_of_dict_set key_neq
      split: option.splits if_splits sum.splits)

lemma normalize_feedback_score:
  "map_of (normalize_feedback d) (py ''score'') = map_of d (py ''score'')"
  by (auto simp: normalize_feedback_def map_of_dict_set key_neq
      split: option.splits json.splits)

lemma normalize_suggestions_other:
  "k \<noteq> py ''suggestions'' \<Longrightarrow> map_of (normalize_suggestions lower d) k = map_of d k"
  by (auto simp: normalize_suggestions_def map_of_dict_set Let_def
      split: option.splits json.splits)

lemma normalize_feedback_text:
  "\<exists>f. feedback_text (normalize_feedback d) = Some f \<and>
       (f = [] \<longrightarrow> map_of d (py ''feedback'') = Some (JStr []))"
  by (auto simp: normalize_feedback_def feedback_text_def map_of_dict_set default_feedback_def
      py_def split: option.splits json.splits)

lemma padded_ok:
  assumes "\<And>t. t \<in> set c \<Longrightarrow> t \<noteq> []"
  shows "length (pad_suggestions (take 3 c)) = 3 \<and>
         list_all nonempty_str (map JStr (pad_suggestions (take 3 c)))"
proof -
  have "t \<noteq> []" if "t \<in> set (pad_suggestions (take 3 c))" for t
    using that pad_suggestions_set [of "take 3 c"] default_suggestions_nonempty
      assms in_set_takeD [of t 3 c]
    by blast
  then show ?thesis by (simp add: list_all_iff pad_suggestions_length)
qed

lemma cleaned_ok:
  "length (pad_suggestions (take 3
      (if clean_suggestions lower xs = [] then default_suggestions
       else clean_suggestions lower xs))) = 3 \<and>
   list_all nonempty_str (map JStr (pad_suggestions (take 3
      (if clean_suggestions lower xs = [] then default_suggestions
       else clean_suggestions lower xs))))"
proof (cases "clean_suggestions lower xs = []")
  case True
  then show ?thesis
    using padded_ok [of default_suggestions, OF default_suggestions_nonempty] by simp
next
  case False
  then show ?thesis
    using padded_ok [of "clean_suggestions lower xs", OF clean_suggestions_nonempty] by simp
qed

lemma normalize_suggestions_three: "three_suggestions (normalize_suggestions lower d)"
proof (cases "\<exists>xs. map_of d (py ''suggestions'') = Some (JList xs)")
  case True
  then obtain xs where xs: "map_of d (py ''suggestions'') = Some (JList xs)" by blast
  show ?thesis
    using cleaned_ok [of lower xs]
    by (simp add: three_suggestions_def normalize_suggestions_def xs map_of_dict_set Let_def)
next
  case False
  have "length (map JStr default_suggestions) = 3 \<and>
      list_all nonempty_str (map JStr default_suggestions)"
    by (simp add: default_suggestions_def py_def)
  with False show ?thesis
    by (auto simp: three_suggestions_def normalize_suggestions_def map_of_dict_set
        split: option.splits json.splits)
qed

lemma fallback_results_ok:
  "score_in_unit error_result" "three_suggestions error_result"
  "\<exists>f. feedback_text error_result = Some f \<and> f \<noteq> []"
  "score_in_unit parse_failure_result" "three_suggestions parse_failure_result"
  "\<exists>f. feedback_text parse_failure_result = Some f \<and> f \<noteq> []"
  by (simp_all add: score_in_unit_def three_suggestions_def feedback_text_def
      error_result_def parse_failure_result_def py_def)

lemma normalize_ok:
  assumes "normalize lower ev = Inr r"
  shows "score_in_unit r" and "three_suggestions r"
    and "\<exists>f. feedback_text r = Some f \<and>
           (f = [] \<longrightarrow> (\<exists>d. ev = JDict d \<and> map_of d (py ''feedback'') = Some (JStr [])))"
proof -
  from assms obtain d d1 where ev: "ev = JDict d" and d1: "normalize_score d = Inr d1"
    and r: "r = normalize_suggestions lower (normalize_feedback d1)"
    by (auto simp: normalize_def split: json.splits sum.splits)
  have "map_of r (py ''score'') = map_of d1 (py ''score'')"
    by (simp add: r normalize_suggestions_other normalize_feedback_score key_neq)
  with normalize_score_ok [OF d1] show "score_in_unit r"
    by (simp add: score_in_unit_def)
  show "three_suggestions r" by (simp add: r normalize_suggestions_three)
  have "feedback_text r = feedback_text (normalize_feedback d1)"
    by (simp add: r feedback_text_def normalize_suggestions_other key_neq)
  with normalize_feedback_text [of d1] normalize_score_feedback [OF d1] ev
  show "\<exists>f. feedback_text r = Some f \<and>
           (f = [] \<longrightarrow> (\<exists>d. ev = JDict d \<and> map_of d (py ''feedback'') = Some (JStr [])))"
    by auto
qed

text \<open>
  Claim C1, as amended. For every reply text, every behaviour of \<open>json.loads\<close> and every
  upstream exception, \<open>evaluate_answer\<close> returns a dict whose score is a float in [0,1],
  whose suggestions are a list of exactly three non-empty strings, and whose feedback is a
  string; the feedback is non-empty unless the reply parsed to a dict whose own
  \<open>feedback\<close> field is the empty string, which is passed through unchanged.
\<close>

theorem evaluate_answer_contract:
  "score_in_unit (evaluate_answer lower loads upstream) \<and>
   three_suggestions (evaluate_answer lower loads upstream) \<and>
   (\<exists>f. feedback_text (evaluate_answer lower loads upstream) = Some f \<and>
        (f = [] \<longrightarrow>
           (\<exists>t d. upstream = Inr t \<and> extract_json loads (strip t) = Some (JDict d) \<and>
                  map_of d (py ''feedback'') = Some (JStr []))))"
proof (cases upstream)
  case (Inl e)
  then show ?thesis using fallback_results_ok by (auto simp: evaluate_answer_def)
next
  case (Inr t)
  show ?thesis
  proof (cases "extract_json loads (strip t)")
    case None
    with Inr show ?thesis using fallback_results_ok by (auto simp: evaluate_answer_def)
  next
    case (Some ev)
    show ?thesis
    proof (cases "normalize lower ev")
      case (Inl e)
      with Inr Some show ?thesis using fallback_results_ok by (auto simp: evaluate_answer_def)
    next
      case r: (Inr r)
      with Inr Some normalize_ok [OF r] show ?thesis
        by (simp add: evaluate_answer_def)
    qed
  qed
qed

theorem evaluate_answer_contract_witness:
  \<open>feedback_text (evaluate_answer ascii_lower
      (loads_table [(py ''{"score": 2, "feedback": ""}'',
         JDict [(py ''score'', JInt 2), (py ''feedback'', JStr [])])])
      (Inr (py ''{"score": 2, "feedback": ""}''))) = Some [] \<and>
   (\<exists>t d. (Inr (py ''{"score": 2, "feedback": ""}'') :: exn + pystr) = Inr t \<and>
      extract_json (loads_table [(py ''{"score": 2, "feedback": ""}'',
         JDict [(py ''score'', JInt 2), (py ''feedback'', JStr [])])]) (strip t) = Some (JDict d) \<and>
      map_of d (py ''feedback'') = Some (JStr []))\<close>
proof -
  let ?loads = \<open>loads_table [(py ''{"score": 2, "feedback": ""}'',
         JDict [(py ''score'', JInt 2), (py ''feedback'', JStr [])])]\<close>
  let ?up = \<open>Inr (py ''{"score": 2, "feedback": ""}'') :: exn + pystr\<close>
  have empty: "feedback_text (evaluate_answer ascii_lower ?loads ?up) = Some []"
    by code_simp
  with evaluate_answer_contract [of ascii_lower ?loads ?up] show ?thesis
    by auto
qed

text \<open>
  Claim C1 as stated fails: the reply \<open>{"feedback": ""}\<close> parses to a dict whose feedback
  is a string, so line 278 keeps it, and the returned feedback is the empty string.
\<close>

theorem evaluate_answer_empty_feedback:
  \<open>feedback_text (evaluate_answer ascii_lower
      (loads_table [(py ''{"feedback": ""}'', JDict [(py ''feedback'', JStr [])])])
      (Inr (py ''{"feedback": ""}''))) = Some []\<close>
  by code_simp

section \<open>The denylists of the suggestion filter\<close>

text \<open>
  A suggestion passes the filter of lines 304 to 307 when it holds none of the eight
  characters of the first list and its lower-cased text holds none of the four words of
  the second. \<open>canned_suggestions\<close> collects the nine fixed suggestions of the source.
\<close>

definition suggestions_of :: "pydict \<Rightarrow> json list" where
  "suggestions_of d = (case map_of d (py ''suggestions'') of Some (JList xs) \<Rightarrow> xs | _ \<Rightarrow> [])"

definition passes_denylist :: "(pystr \<Rightarrow> pystr) \<Rightarrow> pystr \<Rightarrow> bool" where
  "passes_denylist lower t \<longleftrightarrow>
     \<not> list_ex (\<lambda>ch. contains t ch) suspicious_chars \<and>
     \<not> list_ex (\<lambda>word. contains (lower t) word) suspicious_words"

definition is_ascii :: "pystr \<Rightarrow> bool" where
  "is_ascii s = list_all (\<lambda>c. c < 128) s"

definition canned_suggestions :: "pystr list" where
  "canned_suggestions = default_suggestions @
     concat (map (\<lambda>x. case x of JStr t \<Rightarrow> [t] | _ \<Rightarrow> [])
       (suggestions_of parse_failure_result @ suggestions_of error_result))"

lemma clean_suggestions_pass:
  "t \<in> set (clean_suggestions lower xs) \<Longrightarrow> passes_denylist lower t"
  by (induction lower xs rule: clean_suggestions.induct)
    (auto simp: Let_def passes_denylist_def split: if_splits)

lemma canned_ascii: "list_all is_ascii canned_suggestions"
  by (simp add: canned_suggestions_def default_suggestions_def suggestions_of_def
      parse_failure_result_def error_result_def is_ascii_def py_def)

lemma canned_pass_ascii: "list_all (passes_denylist ascii_lower) canned_suggestions"
  by (simp add: canned_suggestions_def default_suggestions_def suggestions_of_def
      parse_failure_result_def error_result_def passes_denylist_def py_def ascii_lower_def
      contains_def find_def suspicious_chars_def suspicious_words_def)

lemma canned_pass:
  assumes "\<And>s. is_ascii s \<Longrightarrow> lower s = ascii_lower s"
    and "t \<in> set canned_suggestions"
  shows "passes_denylist lower t"
proof -
  from assms(2) canned_ascii have "is_ascii t" by (simp add: list_all_iff)
  then have "lower t = ascii_lower t" by (rule assms(1))
  moreover from assms(2) canned_pass_ascii have "passes_denylist ascii_lower t"
    by (simp add: list_all_iff)
  ultimately show ?thesis by (simp add: passes_denylist_def)
qed

lemma default_canned: "set default_suggestions \<subseteq> set canned_suggestions"
  by (simp add: canned_suggestions_def)

lemma fallback_canned:
  "set (suggestions_of parse_failure_result) \<subseteq> JStr ` set canned_suggestions"
  "set (suggestions_of error_result) \<subseteq> JStr ` set canned_suggestions"
  by (simp_all add: canned_suggestions_def suggestions_of_def parse_failure_result_def
      error_result_def default_suggestions_def py_def)

lemma normalize_suggestions_of:
  assumes "x \<in> set (suggestions_of (normalize_suggestions lower d))"
  shows "\<exists>t. x = JStr t \<and>
           (t \<in> set default_suggestions \<or> (\<exists>xs. t \<in> set (clean_suggestions lower xs)))"
proof (cases "\<exists>xs. map_of d (py ''suggestions'') = Some (JList xs)")
  case True
  then obtain xs where xs: "map_of d (py ''suggestions'') = Some (JList xs)" by blast
  let ?c = "if clean_suggestions lower xs = [] then default_suggestions
            else clean_suggestions lower xs"
  have "set (pad_suggestions (take 3 ?c)) \<subseteq> set (take 3 ?c) \<union> set default_suggestions"
    by (rule pad_suggestions_set)
  moreover have "set (take 3 ?c) \<subseteq> set ?c" by (rule set_take_subset)
  moreover have "set ?c \<subseteq> set default_suggestions \<union> set (clean_suggestions lower xs)"
    by simp
  ultimately have sub: "set (pad_suggestions (take 3 ?c)) \<subseteq>
      set default_suggestions \<union> set (clean_suggestions lower xs)" by blast
  from assms have "x \<in> JStr ` set (pad_suggestions (take 3 ?c))"
    by (simp add: suggestions_of_def normalize_suggestions_def xs map_of_dict_set Let_def)
  with sub show ?thesis by blast
next
  case False
  with assms have "x \<in> JStr ` set default_suggestions"
    by (auto simp: suggestions_of_def normalize_suggestions_def map_of_dict_set
        split: option.splits json.splits)
  then show ?thesis by blast
qed

lemma normalize_denylist:
  assumes "\<And>s. is_ascii s \<Longrightarrow> lower s = ascii_lower s"
    and "normalize lower ev = Inr r" and "x \<in> set (suggestions_of r)"
  shows "\<exists>t. x = JStr t \<and> passes_denylist lower t"
proof -
  from assms(2) obtain d where r: "r = normalize_suggestions lower d"
    by (auto simp: normalize_def split: json.splits sum.splits)
  from assms(3) normalize_suggestions_of [of x lower d] obtain t where x: "x = JStr t"
    and t: "t \<in> set default_suggestions \<or>
       (\<exists>xs. t \<in> set (clean_suggestions lower xs))"
    unfolding r by blast
  from t have "passes_denylist lower t"
    using canned_pass [OF assms(1)] default_canned clean_suggestions_pass by blast
  with x show ?thesis by blast
qed

lemmas eval_defs = evaluate_answer_def extract_json_def unfence_def contains_def find_def
  fence_json_def fence_def py_def loads_table_def normalize_def normalize_score_def
  normalize_feedback_def normalize_suggestions_def dict_set_def suggestions_of_def Let_def
  strip_def isspace_def ascii_lower_def suspicious_chars_def suspicious_words_def
  default_suggestions_def pad_suggestions.simps

text \<open>
  Claim C4, as amended. For every input to \<open>evaluate_answer\<close>, every returned suggestion
  is a string that contains none of the characters \<open>U+FF0C\<close>, \<open>U+3002\<close>, \<open>U+5B66\<close>,
  \<open>U+751F\<close>, \<open>U+300A\<close>, \<open>U+300B\<close>, \<open>U+8BF7\<close>, \<open>U+4F60\<close> and whose lower-cased text
  contains none of \<open>script\<close>, \<open>refresh\<close>, \<open>student\<close>, \<open>click\<close>. The ASCII characters
  \<open><\<close> and \<open>>\<close> are not on the list. The hypothesis says of \<open>str.lower\<close> only that it
  is the ASCII lower-casing on ASCII text.
\<close>

theorem evaluate_answer_denylist:
  assumes "\<And>s. is_ascii s \<Longrightarrow> lower s = ascii_lower s"
  shows "\<forall>x \<in> set (suggestions_of (evaluate_answer lower loads upstream)).
           \<exists>t. x = JStr t \<and> passes_denylist lower t"
proof
  fix x
  assume x: "x \<in> set (suggestions_of (evaluate_answer lower loads upstream))"
  have canned: "\<exists>t. x = JStr t \<and> passes_denylist lower t"
    if "x \<in> JStr ` set canned_suggestions"
    using that canned_pass [OF assms] by blast
  show "\<exists>t. x = JStr t \<and> passes_denylist lower t"
  proof (cases upstream)
    case (Inl e)
    with x fallback_canned(2) canned show ?thesis
      by (auto simp: evaluate_answer_def)
  next
    case (Inr t)
    show ?thesis
    proof (cases "extract_json loads (strip t)")
      case None
      with x Inr fallback_canned(1) canned show ?thesis
        by (auto simp: evaluate_answer_def)
    next
      case (Some ev)
      show ?thesis
      proof (cases "normalize lower ev")
        case (Inl e)
        with x Inr Some fallback_canned(2) canned show ?thesis
          by (auto simp: evaluate_answer_def)
      next
        case r: (Inr r)
        with x Inr Some have "x \<in> set (suggestions_of r)"
          by (simp add: evaluate_answer_def)
        with normalize_denylist [OF assms r] show ?thesis by blast
      qed
    qed
  qed
qed



theorem evaluate_answer_denylist_witness:
  \<open>JStr (py ''Click the refresh button'') \<notin> set (suggestions_of (evaluate_answer ascii_lower
      (loads_table [(py ''{"suggestions": ["Click the refresh button", "Use examples"]}'',
         JDict [(py ''suggestions'',
           JList [JStr (py ''Click the refresh button''), JStr (py ''Use examples'')])])])
      (Inr (py ''{"suggestions": ["Click the refresh button", "Use examples"]}'')))) \<and>
   JStr (py ''Use examples'') \<in> set (suggestions_of (evaluate_answer ascii_lower
      (loads_table [(py ''{"suggestions": ["Click the refresh button", "Use examples"]}'',
         JDict [(py ''suggestions'',
           JList [JStr (py ''Click the refresh button''), JStr (py ''Use examples'')])])])
      (Inr (py ''{"suggestions": ["Click the refresh button", "Use examples"]}''))))\<close>
proof -
  let ?loads = \<open>loads_table [(py ''{"suggestions": ["Click the refresh button", "Use examples"]}'',
         JDict [(py ''suggestions'',
           JList [JStr (py ''Click the refresh button''), JStr (py ''Use examples'')])])]\<close>
  let ?up = \<open>Inr (py ''{"suggestions": ["Click the refresh button", "Use examples"]}'') :: exn + pystr\<close>
  have bad: "\<not> passes_denylist ascii_lower (py ''Click the refresh button'')"
    by (simp add: passes_denylist_def eval_defs)
  have kept: "JStr (py ''Use examples'') \<in> set (suggestions_of (evaluate_answer ascii_lower ?loads ?up))"
    by (simp add: eval_defs)
  have "is_ascii s \<Longrightarrow> ascii_lower s = ascii_lower s" for s by simp
  from evaluate_answer_denylist [of ascii_lower ?loads ?up, OF this] bad kept show ?thesis
    by blast
qed

text \<open>
  Claim C4 as stated fails: the characters filtered at line 304 are the CJK brackets
  \<open>U+300A\<close> and \<open>U+300B\<close>, not \<open><\<close> and \<open>>\<close>, so a suggestion with markup is returned.
\<close>

theorem evaluate_answer_keeps_markup:
  \<open>JStr (py ''Use <b>bold</b> headings'') \<in> set (suggestions_of (evaluate_answer ascii_lower
      (loads_table [(py ''{"suggestions": ["Use <b>bold</b> headings"]}'',
         JDict [(py ''suggestions'', JList [JStr (py ''Use <b>bold</b> headings'')])])])
      (Inr (py ''{"suggestions": ["Use <b>bold</b> headings"]}'')))) \<and>
   contains (py ''Use <b>bold</b> headings'') (py ''<'') \<and>
   contains (py ''Use <b>bold</b> headings'') (py ''>'')\<close>
  by (simp add: eval_defs)

section \<open>Re-validation of stored suggestions in \<open>database.py\<close>\<close>

text \<open>The truth value of a Python value, as \<open>if s\<close> reads it.\<close>

fun truthy :: "json \<Rightarrow> bool" where
  "truthy JNull = False"
| "truthy (JBool b) = b"
| "truthy (JInt n) = (n \<noteq> 0)"
| "truthy (JFloat f) = (f \<noteq> Finite 0)"
| "truthy (JStr s) = (s \<noteq> [])"
| "truthy (JList xs) = (xs \<noteq> [])"
| "truthy (JDict d) = (d \<noteq> [])"

text \<open>
  \<open>str(v)\<close>: a string is returned as it is; the text of any other value is given by the
  parameter \<open>repr\<close>, which stands for the runtime's conversion.
\<close>

definition py_str :: "(json \<Rightarrow> pystr) \<Rightarrow> json \<Rightarrow> pystr" where
  "py_str repr v = (case v of JStr s \<Rightarrow> s | _ \<Rightarrow> repr v)"

text \<open>Line 386: \<open>[str(s) for s in suggestions if s]\<close>.\<close>

definition sanitize :: "(json \<Rightarrow> pystr) \<Rightarrow> json list \<Rightarrow> pystr list" where
  "sanitize repr suggestions = map (py_str repr) (filter truthy suggestions)"

text \<open>
  Lines 375 to 394, for one row: \<open>raw\<close> is the stored \<open>suggestions\<close> column (\<open>None\<close> for
  \<open>NULL\<close>). A value that is not a list is replaced by the empty list at line 383, and
  every exception ends in the empty list.
\<close>

definition row_suggestions ::
  "(json \<Rightarrow> pystr) \<Rightarrow> (pystr \<Rightarrow> exn + json) \<Rightarrow> pystr option \<Rightarrow> pystr list" where
  "row_suggestions repr loads raw =
     (case raw of
        None \<Rightarrow> []
      | Some suggestions_raw \<Rightarrow>
          if suggestions_raw = [] then []
          else (case loads suggestions_raw of
                  Inl e \<Rightarrow> []
                | Inr (JList xs) \<Rightarrow> sanitize repr xs
                | Inr _ \<Rightarrow> sanitize repr []))"

text \<open>
  A stand-in for \<open>repr\<close> at concrete inputs: the text of \<open>None\<close>, of a bool and of an
  int; it is not used on any other value.
\<close>

fun nat_digits :: "nat \<Rightarrow> pystr" where
  "nat_digits n = (if n < 10 then [48 + n] else nat_digits (n div 10) @ [48 + n mod 10])"

declare nat_digits.simps [simp del]

fun repr_sample :: "json \<Rightarrow> pystr" where
  "repr_sample JNull = py ''None''"
| "repr_sample (JBool b) = (if b then py ''True'' else py ''False'')"
| "repr_sample (JInt n) = (if n < 0 then 45 # nat_digits (nat (- n)) else nat_digits (nat n))"
| "repr_sample _ = []"

lemma sanitize_strings:
  "(\<And>t. t \<in> set ys \<Longrightarrow> t \<noteq> []) \<Longrightarrow> sanitize repr (map JStr ys) = ys"
  by (induction ys) (auto simp: sanitize_def py_str_def)

text \<open>
  Claim C2, as amended. The filter of \<open>evaluate_answer\<close> and the re-validation of
  \<open>get_answers_for_question\<close> are different functions: the re-validation only drops
  falsy elements and turns the others into strings. They agree on clean lists: applied
  to the output of the filter, the re-validation returns it unchanged.
\<close>

theorem revalidation_keeps_clean_suggestions:
  "sanitize repr (map JStr (clean_suggestions lower xs)) = clean_suggestions lower xs"
  by (rule sanitize_strings) (rule clean_suggestions_nonempty)

text \<open>
  Claim C2 as stated fails: on the list \<open>[" Add a summary ", 7, "Click the refresh
  button"]\<close> the filter keeps one stripped string, the re-validation keeps all three
  elements, the number as \<open>"7"\<close>.
\<close>

theorem filter_and_revalidation_differ:
  "clean_suggestions ascii_lower
     [JStr (py '' Add a summary ''), JInt 7, JStr (py ''Click the refresh button'')]
     = [py ''Add a summary''] \<and>
   sanitize repr_sample
     [JStr (py '' Add a summary ''), JInt 7, JStr (py ''Click the refresh button'')]
     = [py '' Add a summary '', py ''7'', py ''Click the refresh button'']"
  by (simp add: eval_defs sanitize_def py_str_def nat_digits.simps)



section \<open>The persistence gateway of \<open>database.py\<close>\<close>

text \<open>
  The three tables of \<open>initialize_db\<close>, each a list of rows in insertion order. A
  timestamp is the reading of the clock, a natural number. The \<open>score\<close> and \<open>feedback\<close>
  columns hold the value as SQLite keeps it under the affinity of the column. Classroom
  codes and student ids are the codes of the identifier generator (letters \<open>A\<close> to \<open>Z\<close>
  and digits), and the question a teacher typed is taken to be text with an encoding;
  where the free text of an answer and its evaluation is stored and looked up, in
  \<open>save_answer\<close> and \<open>get_answers_for_question\<close>, the binding of the parameters and its
  failures are modelled.
\<close>

record classroom =
  c_class_code :: pystr
  c_created_at :: nat
  c_teacher_id :: pystr
  c_question :: "pystr option"
  c_status :: "pystr option"

record student =
  s_student_id :: pystr
  s_class_code :: pystr
  s_joined_at :: nat

record answer_row =
  a_student_id :: pystr
  a_class_code :: pystr
  a_question :: "pystr option"
  a_answer :: pystr
  a_score :: json
  a_feedback :: json
  a_suggestions :: "pystr option"
  a_submitted_at :: nat

record database =
  classrooms :: "classroom list"
  students :: "student list"
  answers :: "answer_row list"

text \<open>
  The calls into \<open>sqlite3\<close> that one operation makes. A value of type \<open>faults\<close> says
  which of them raise a \<open>sqlite3.Error\<close> during the operation, and which one. Where the
  binding of the parameters is modelled, \<open>Prepare\<close> is an error of \<open>execute\<close> before the
  parameters are bound, and \<open>Insert\<close> or \<open>Select\<close> one after.
\<close>

datatype call =
  Connect | Pragma | Prepare | SelectCount | SelectStatus | Select | Insert | Update | Commit

type_synonym faults = "call \<Rightarrow> sqlite_error option"

definition no_faults :: faults where
  "no_faults = (\<lambda>c. None)"

text \<open>The rows that \<open>WHERE class_code = ?\<close> selects.\<close>

definition matching_classrooms :: "database \<Rightarrow> pystr \<Rightarrow> classroom list" where
  "matching_classrooms db class_code =
     filter (\<lambda>c. c_class_code c = class_code) (classrooms db)"

text \<open>
  The two \<open>INSERT\<close> statements under the constraints of the schema: \<open>class_code\<close> and
  \<open>student_id\<close> are \<open>UNIQUE\<close>, and with \<open>PRAGMA foreign_keys = ON\<close>, which \<open>add_student\<close>
  sets on its connection, a student row must reference an existing classroom.
\<close>

definition insert_classroom :: "database \<Rightarrow> classroom \<Rightarrow> sqlite_error + database" where
  "insert_classroom db row =
     (if matching_classrooms db (c_class_code row) \<noteq> [] then Inl IntegrityError
      else Inr (db\<lparr>classrooms := classrooms db @ [row]\<rparr>))"

definition insert_student :: "database \<Rightarrow> student \<Rightarrow> sqlite_error + database" where
  "insert_student db row =
     (if list_ex (\<lambda>s. s_student_id s = s_student_id row) (students db) then Inl IntegrityError
      else if matching_classrooms db (s_class_code row) = [] then Inl IntegrityError
      else Inr (db\<lparr>students := students db @ [row]\<rparr>))"

text \<open>
  \<open>Database.create_classroom\<close>. The connection is opened before the \<open>try\<close>, so its error
  reaches the caller; every \<open>sqlite3.Error\<close> inside the \<open>try\<close> gives \<open>False\<close>. A change
  that was not committed is dropped when the connection is closed.
\<close>

definition create_classroom ::
  "faults \<Rightarrow> database \<Rightarrow> pystr \<Rightarrow> pystr \<Rightarrow> pystr option \<Rightarrow> nat \<Rightarrow> (exn + bool) \<times> database" where
  "create_classroom flt db class_code teacher_id question now =
     (case flt Connect of
        Some e \<Rightarrow> (Inl (SqliteError e), db)
      | None \<Rightarrow>
     (case flt SelectCount of
        Some e \<Rightarrow> (Inr False, db)
      | None \<Rightarrow>
          if length (matching_classrooms db class_code) > 0 then (Inr False, db)
          else
     (case flt Insert of
        Some e \<Rightarrow> (Inr False, db)
      | None \<Rightarrow>
     (case insert_classroom db
             \<lparr>c_class_code = class_code, c_created_at = now, c_teacher_id = teacher_id,
              c_question = question, c_status = Some (py ''active'')\<rparr> of
        Inl e \<Rightarrow> (Inr False, db)
      | Inr db' \<Rightarrow>
     (case flt Commit of
        Some e \<Rightarrow> (Inr False, db)
      | None \<Rightarrow> (Inr True, db'))))))"

text \<open>
  \<open>Database.add_student\<close>. \<open>fetchone()[0]\<close> on an empty result would raise \<open>TypeError\<close>,
  which no handler of the function catches.
\<close>

definition add_student ::
  "faults \<Rightarrow> database \<Rightarrow> pystr \<Rightarrow> pystr \<Rightarrow> nat \<Rightarrow> (exn + bool) \<times> database" where
  "add_student flt db student_id class_code now =
     (case flt Connect of
        Some e \<Rightarrow> (Inl (SqliteError e), db)
      | None \<Rightarrow>
     (case flt Pragma of
        Some e \<Rightarrow> (Inr False, db)
      | None \<Rightarrow>
     (case flt SelectCount of
        Some e \<Rightarrow> (Inr False, db)
      | None \<Rightarrow>
          if length (matching_classrooms db class_code) = 0 then (Inr False, db)
          else
     (case flt SelectStatus of
        Some e \<Rightarrow> (Inr False, db)
      | None \<Rightarrow>
     (case matching_classrooms db class_code of
        [] \<Rightarrow> (Inl TypeError, db)
      | c # _ \<Rightarrow>
          if c_status c \<noteq> Some (py ''active'') then (Inr False, db)
          else
     (case flt Insert of
        Some e \<Rightarrow> (Inr False, db)
      | None \<Rightarrow>
     (case insert_student db
             \<lparr>s_student_id = student_id, s_class_code = class_code, s_joined_at = now\<rparr> of
        Inl e \<Rightarrow> (Inr False, db)
      | Inr db' \<Rightarrow>
     (case flt Commit of
        Some e \<Rightarrow> (Inr False, db)
      | None \<Rightarrow> (Inr True, db')))))))))"

text \<open>\<open>evaluation[k]\<close> raises \<open>KeyError\<close> on a missing key.\<close>

definition dict_get :: "pydict \<Rightarrow> pystr \<Rightarrow> exn + json" where
  "dict_get d k = (case map_of d k of None \<Rightarrow> Inl KeyError | Some v \<Rightarrow> Inr v)"

text \<open>
  A string is bound as its UTF-8 encoding, which exists when the string holds no
  surrogate code point (\<open>U+D800\<close> to \<open>U+DFFF\<close>) and nothing above \<open>U+10FFFF\<close>.
\<close>

definition encodable :: "pystr \<Rightarrow> bool" where
  "encodable s = list_all (\<lambda>c. c < 55296 \<or> (57343 < c \<and> c \<le> 1114111)) s"

text \<open>
  Binding one parameter of a statement: a string without encoding raises
  \<open>UnicodeEncodeError\<close>, an int outside 64 bits raises \<open>OverflowError\<close>, a list or a dict
  raises a \<open>sqlite3.Error\<close>. The parameters are bound in order, and the first failure is
  raised. \<open>caught\<close> is \<open>isinstance(e, sqlite3.Error)\<close>, the test of the handlers.
\<close>

fun bind_param :: "json \<Rightarrow> exn option" where
  "bind_param (JList _) = Some (SqliteError ProgrammingError)"
| "bind_param (JDict _) = Some (SqliteError ProgrammingError)"
| "bind_param (JInt n) =
     (if - (2 ^ 63) \<le> n \<and> n < 2 ^ 63 then None else Some OverflowError)"
| "bind_param (JStr s) = (if encodable s then None else Some UnicodeEncodeError)"
| "bind_param _ = None"

fun bind_params :: "json list \<Rightarrow> exn option" where
  "bind_params [] = None"
| "bind_params (v # vs) = (case bind_param v of Some e \<Rightarrow> Some e | None \<Rightarrow> bind_params vs)"

fun caught :: "exn \<Rightarrow> bool" where
  "caught (SqliteError _) = True"
| "caught _ = False"

text \<open>A question is a string or \<open>None\<close>, which is bound as \<open>NULL\<close>.\<close>

definition question_param :: "pystr option \<Rightarrow> json" where
  "question_param question = (case question of None \<Rightarrow> JNull | Some q \<Rightarrow> JStr q)"

text \<open>
  What SQLite keeps for a bound value. In the \<open>REAL\<close> column \<open>score\<close> a float stays (a
  \<open>NaN\<close> becomes \<open>NULL\<close>), in the \<open>TEXT\<close> column \<open>feedback\<close> a string stays, and \<open>NULL\<close>
  stays in both. Every other value is converted by the engine (an int to a float in a
  \<open>REAL\<close> column, a number to its text in a \<open>TEXT\<close> column); that conversion is the
  parameter \<open>convert\<close>.
\<close>

datatype affinity = REAL | TEXT

definition store_real :: "(affinity \<Rightarrow> json \<Rightarrow> json) \<Rightarrow> json \<Rightarrow> json" where
  "store_real convert v =
     (case v of
        JNull \<Rightarrow> JNull
      | JFloat f \<Rightarrow> (if f = NaN then JNull else JFloat f)
      | _ \<Rightarrow> convert REAL v)"

definition store_text :: "(affinity \<Rightarrow> json \<Rightarrow> json) \<Rightarrow> json \<Rightarrow> json" where
  "store_text convert v =
     (case v of
        JNull \<Rightarrow> JNull
      | JStr t \<Rightarrow> JStr t
      | _ \<Rightarrow> convert TEXT v)"

text \<open>
  \<open>Database.save_answer\<close>; \<open>dumps\<close> is \<open>json.dumps\<close>. The arguments of \<open>execute\<close> are
  evaluated first, so a missing key raises before the statement runs. Only a
  \<open>sqlite3.Error\<close> is caught. The connection does not enable foreign keys, so the row is
  appended whatever it references.
\<close>

definition save_answer ::
  "faults \<Rightarrow> (affinity \<Rightarrow> json \<Rightarrow> json) \<Rightarrow> (json \<Rightarrow> pystr) \<Rightarrow> database \<Rightarrow> pystr \<Rightarrow> pystr \<Rightarrow>
   pystr option \<Rightarrow> pystr \<Rightarrow> pydict \<Rightarrow> nat \<Rightarrow> (exn + bool) \<times> database" where
  "save_answer flt convert dumps db student_id class_code question answer evaluation now =
     (case flt Connect of
        Some e \<Rightarrow> (Inl (SqliteError e), db)
      | None \<Rightarrow>
     (case dict_get evaluation (py ''score'') of
        Inl e \<Rightarrow> (Inl e, db)
      | Inr score \<Rightarrow>
     (case dict_get evaluation (py ''feedback'') of
        Inl e \<Rightarrow> (Inl e, db)
      | Inr feedback \<Rightarrow>
     (case dict_get evaluation (py ''suggestions'') of
        Inl e \<Rightarrow> (Inl e, db)
      | Inr suggestions \<Rightarrow>
     (case flt Prepare of
        Some e \<Rightarrow> (Inr False, db)
      | None \<Rightarrow>
     (case bind_params
             [JStr student_id, JStr class_code, question_param question, JStr answer, score,
              feedback, JStr (dumps suggestions)] of
        Some e \<Rightarrow> (if caught e then Inr False else Inl e, db)
      | None \<Rightarrow>
     (case flt Insert of
        Some e \<Rightarrow> (Inr False, db)
      | None \<Rightarrow>
     (case flt Commit of
        Some e \<Rightarrow> (Inr False, db)
      | None \<Rightarrow>
          (Inr True,
           db\<lparr>answers := answers db @
              [\<lparr>a_student_id = student_id, a_class_code = class_code, a_question = question,
                a_answer = answer, a_score = store_real convert score,
                a_feedback = store_text convert feedback,
                a_suggestions = Some (dumps suggestions), a_submitted_at = now\<rparr>]\<rparr>)))))))))"

text \<open>\<open>Database.get_classroom_students\<close>: there is no \<open>try\<close> in this function.\<close>

definition get_classroom_students ::
  "faults \<Rightarrow> database \<Rightarrow> pystr \<Rightarrow> exn + (pystr \<times> nat) list" where
  "get_classroom_students flt db class_code =
     (case flt Connect of
        Some e \<Rightarrow> Inl (SqliteError e)
      | None \<Rightarrow>
     (case flt Select of
        Some e \<Rightarrow> Inl (SqliteError e)
      | None \<Rightarrow>
          Inr (map (\<lambda>s. (s_student_id s, s_joined_at s))
                 (filter (\<lambda>s. s_class_code s = class_code) (students db)))))"

text \<open>\<open>Database.update_classroom_question\<close>.\<close>

definition update_classroom_question ::
  "faults \<Rightarrow> database \<Rightarrow> pystr \<Rightarrow> pystr option \<Rightarrow> (exn + bool) \<times> database" where
  "update_classroom_question flt db class_code question =
     (case flt Connect of
        Some e \<Rightarrow> (Inl (SqliteError e), db)
      | None \<Rightarrow>
     (case flt Update of
        Some e \<Rightarrow> (Inr False, db)
      | None \<Rightarrow>
     (case flt Commit of
        Some e \<Rightarrow> (Inr False, db)
      | None \<Rightarrow>
          (Inr True,
           db\<lparr>classrooms :=
                map (\<lambda>c. if c_class_code c = class_code then c\<lparr>c_question := question\<rparr> else c)
                  (classrooms db)\<rparr>))))"

text \<open>\<open>Database.get_classroom_info\<close>: the first matching row, or \<open>None\<close>.\<close>

definition get_classroom_info :: "faults \<Rightarrow> database \<Rightarrow> pystr \<Rightarrow> exn + classroom option" where
  "get_classroom_info flt db class_code =
     (case flt Connect of
        Some e \<Rightarrow> Inl (SqliteError e)
      | None \<Rightarrow>
     (case flt Select of
        Some e \<Rightarrow> Inr None
      | None \<Rightarrow>
     (case matching_classrooms db class_code of
        [] \<Rightarrow> Inr None
      | result # _ \<Rightarrow> Inr (Some result))))"

text \<open>
  \<open>Database.get_answers_for_question\<close>. The rows are the answers of the classroom and
  question joined with the students of the same id, latest first; rows with the same
  timestamp stay in the order of the scan. A \<open>NULL\<close> question matches no row. A
  parameter that cannot be bound raises out of the function, as in \<open>save_answer\<close>.
\<close>

record answer_view =
  v_student_id :: pystr
  v_answer :: pystr
  v_score :: json
  v_feedback :: json
  v_suggestions :: "pystr list"
  v_submitted_at :: nat

definition join_students :: "database \<Rightarrow> answer_row list \<Rightarrow> (student \<times> answer_row) list" where
  "join_students db rows =
     concat (map (\<lambda>a. map (\<lambda>s. (s, a))
                          (filter (\<lambda>s. a_student_id a = s_student_id s) (students db)))
               rows)"

definition get_answers_for_question ::
  "faults \<Rightarrow> (json \<Rightarrow> pystr) \<Rightarrow> (pystr \<Rightarrow> exn + json) \<Rightarrow> database \<Rightarrow> pystr \<Rightarrow> pystr option \<Rightarrow>
   exn + answer_view list" where
  "get_answers_for_question flt repr loads db class_code question =
     (case flt Connect of
        Some e \<Rightarrow> Inl (SqliteError e)
      | None \<Rightarrow>
     (case flt Prepare of
        Some e \<Rightarrow> Inr []
      | None \<Rightarrow>
     (case bind_params [JStr class_code, question_param question] of
        Some e \<Rightarrow> (if caught e then Inr [] else Inl e)
      | None \<Rightarrow>
     (case flt Select of
        Some e \<Rightarrow> Inr []
      | None \<Rightarrow>
          (let results =
                 rev (sort_key (\<lambda>(s, a). a_submitted_at a)
                   (rev (join_students db
                      (filter (\<lambda>a. a_class_code a = class_code \<and> question \<noteq> None \<and>
                                   a_question a = question)
                         (answers db)))))
           in Inr (map (\<lambda>(s, a).
                     \<lparr>v_student_id = s_student_id s, v_answer = a_answer a,
                      v_score = a_score a, v_feedback = a_feedback a,
                      v_suggestions = row_suggestions repr loads (a_suggestions a),
                      v_submitted_at = a_submitted_at a\<rparr>)
                   results))))))"

text \<open>\<open>Database.get_classroom_data\<close>: every exception of the query gives the empty frame.\<close>

definition get_classroom_data ::
  "faults \<Rightarrow> database \<Rightarrow> pystr \<Rightarrow> exn + (student \<times> answer_row) list" where
  "get_classroom_data flt db class_code =
     (case flt Connect of
        Some e \<Rightarrow> Inl (SqliteError e)
      | None \<Rightarrow>
     (case flt Select of
        Some e \<Rightarrow> Inr []
      | None \<Rightarrow>
          Inr (sort_key (\<lambda>(s, a). a_submitted_at a)
                 (join_students db (filter (\<lambda>a. a_class_code a = class_code) (answers db))))))"

definition empty_db :: database where
  "empty_db = \<lparr>classrooms = [], students = [], answers = []\<rparr>"

section \<open>Properties of the persistence gateway\<close>

text \<open>
  Two stores for evaluating the gateway at concrete inputs: one classroom \<open>AB12\<close> that
  is closed, and one that is active with one student.
\<close>

definition closed_db :: database where
  "closed_db =
     \<lparr>classrooms = [\<lparr>c_class_code = py ''AB12'', c_created_at = 1,
         c_teacher_id = py ''teacher-1'', c_question = Some (py ''Why is X?''),
         c_status = Some (py ''closed'')\<rparr>], students = [], answers = []\<rparr>"

definition joined_db :: database where
  "joined_db =
     \<lparr>classrooms = [\<lparr>c_class_code = py ''AB12'', c_created_at = 1,
         c_teacher_id = py ''teacher-1'', c_question = Some (py ''Why is X?''),
         c_status = Some (py ''active'')\<rparr>],
      students = [\<lparr>s_student_id = py ''S-7Q2K'', s_class_code = py ''AB12'', s_joined_at = 2\<rparr>],
      answers = []\<rparr>"

lemma matching_classrooms_empty:
  "matching_classrooms db code = [] \<longleftrightarrow> (\<forall>c \<in> set (classrooms db). c_class_code c \<noteq> code)"
  by (auto simp: matching_classrooms_def filter_empty_conv)

lemma matching_classrooms_appended:
  "matching_classrooms (db\<lparr>classrooms := classrooms db @ [row]\<rparr>) (c_class_code row) \<noteq> []"
  by (simp add: matching_classrooms_def)

text \<open>
  Claim C7. From a store that does not hold the code, and with no storage error, the
  first \<open>create_classroom\<close> returns \<open>True\<close> and appends the classroom row with status
  \<open>active\<close>; a second call with the same code returns \<open>False\<close> and leaves the store as
  the first call left it. This holds for a code of any length, so for every code of four
  characters.
\<close>

theorem create_classroom_twice:
  assumes "\<forall>c \<in> set (classrooms db). c_class_code c \<noteq> code"
  shows "case create_classroom no_faults db code teacher question now of
           (r1, db1) \<Rightarrow>
             r1 = Inr True \<and>
             db1 = db\<lparr>classrooms := classrooms db @
                     [\<lparr>c_class_code = code, c_created_at = now, c_teacher_id = teacher,
                       c_question = question, c_status = Some (py ''active'')\<rparr>]\<rparr> \<and>
             create_classroom no_faults db1 code teacher' question' now' = (Inr False, db1)"
proof -
  let ?row = "\<lparr>c_class_code = code, c_created_at = now, c_teacher_id = teacher,
                c_question = question, c_status = Some (py ''active'')\<rparr>"
  let ?db1 = "db\<lparr>classrooms := classrooms db @ [?row]\<rparr>"
  from assms have absent: "matching_classrooms db code = []"
    by (simp add: matching_classrooms_empty)
  then have first: "create_classroom no_faults db code teacher question now = (Inr True, ?db1)"
    by (simp add: create_classroom_def no_faults_def insert_classroom_def)
  have "matching_classrooms ?db1 code \<noteq> []"
    using matching_classrooms_appended [of db ?row] by simp
  then have "create_classroom no_faults ?db1 code teacher' question' now' = (Inr False, ?db1)"
    by (simp add: create_classroom_def no_faults_def)
  with first show ?thesis by simp
qed

theorem create_classroom_twice_witness:
  "create_classroom no_faults empty_db (py ''AB12'') (py ''teacher-1'') (Some (py ''Why is X?'')) 1
     = (Inr True,
        \<lparr>classrooms = [\<lparr>c_class_code = py ''AB12'', c_created_at = 1,
            c_teacher_id = py ''teacher-1'', c_question = Some (py ''Why is X?''),
            c_status = Some (py ''active'')\<rparr>], students = [], answers = []\<rparr>) \<and>
   create_classroom no_faults
     \<lparr>classrooms = [\<lparr>c_class_code = py ''AB12'', c_created_at = 1,
            c_teacher_id = py ''teacher-1'', c_question = Some (py ''Why is X?''),
            c_status = Some (py ''active'')\<rparr>], students = [], answers = []\<rparr>
     (py ''AB12'') (py ''teacher-2'') None 2
     = (Inr False,
        \<lparr>classrooms = [\<lparr>c_class_code = py ''AB12'', c_created_at = 1,
            c_teacher_id = py ''teacher-1'', c_question = Some (py ''Why is X?''),
            c_status = Some (py ''active'')\<rparr>], students = [], answers = []\<rparr>)"
proof -
  have "\<forall>c \<in> set (classrooms empty_db). c_class_code c \<noteq> py ''AB12''"
    by (simp add: empty_db_def)
  from create_classroom_twice [where db = empty_db and code = "py ''AB12''"
      and teacher = "py ''teacher-1''" and question = "Some (py ''Why is X?'')" and now = 1
      and teacher' = "py ''teacher-2''" and question' = None and now' = 2, OF this]
  show ?thesis by (auto simp: empty_db_def split: prod.splits)
qed

lemma add_student_cases:
  "add_student flt db sid code now = (r, db') \<Longrightarrow>
     (r = Inr True \<and> db' = db\<lparr>students := students db @
         [\<lparr>s_student_id = sid, s_class_code = code, s_joined_at = now\<rparr>]\<rparr>) \<or>
     (r \<noteq> Inr True \<and> db' = db)"
  by (auto simp: add_student_def insert_student_def
      split: option.splits if_splits list.splits sum.splits)

text \<open>
  Claim C6. When the connection opens, \<open>add_student\<close> returns \<open>False\<close> and leaves the
  store unchanged if no classroom row has the code, and also if the classroom's status is
  not \<open>active\<close>. In every case the store after the call is the store before it with the
  student row appended when the call returned \<open>True\<close>, and the store before it otherwise.
\<close>

theorem add_student_rejects:
  assumes "flt Connect = None"
  shows "(matching_classrooms db code = [] \<longrightarrow>
            add_student flt db sid code now = (Inr False, db)) \<and>
         (\<forall>c cs. matching_classrooms db code = c # cs \<and> c_status c \<noteq> Some (py ''active'') \<longrightarrow>
            add_student flt db sid code now = (Inr False, db)) \<and>
         snd (add_student flt db sid code now) =
           (if fst (add_student flt db sid code now) = Inr True
            then db\<lparr>students := students db @
                   [\<lparr>s_student_id = sid, s_class_code = code, s_joined_at = now\<rparr>]\<rparr>
            else db)"
proof (intro conjI impI allI)
  assume "matching_classrooms db code = []"
  with assms show "add_student flt db sid code now = (Inr False, db)"
    by (simp add: add_student_def split: option.splits)
next
  fix c cs
  assume "matching_classrooms db code = c # cs \<and> c_status c \<noteq> Some (py ''active'')"
  with assms show "add_student flt db sid code now = (Inr False, db)"
    by (simp add: add_student_def split: option.splits)
next
  obtain r db' where res: "add_student flt db sid code now = (r, db')"
    by (cases "add_student flt db sid code now")
  from add_student_cases [OF res] res
  show "snd (add_student flt db sid code now) =
           (if fst (add_student flt db sid code now) = Inr True
            then db\<lparr>students := students db @
                   [\<lparr>s_student_id = sid, s_class_code = code, s_joined_at = now\<rparr>]\<rparr>
            else db)"
    by auto
qed

theorem add_student_rejects_witness:
  "add_student no_faults closed_db (py ''S-7Q2K'') (py ''ZZ99'') 3 = (Inr False, closed_db) \<and>
   add_student no_faults closed_db (py ''S-7Q2K'') (py ''AB12'') 3 = (Inr False, closed_db)"
proof -
  have c: "no_faults Connect = None" by (simp add: no_faults_def)
  have absent: "matching_classrooms closed_db (py ''ZZ99'') = []"
    by (simp add: matching_classrooms_def closed_db_def py_def)
  have closed: "matching_classrooms closed_db (py ''AB12'') = classrooms closed_db"
    by (simp add: matching_classrooms_def closed_db_def)
  have status: "c_status (hd (classrooms closed_db)) \<noteq> Some (py ''active'')"
    by (simp add: closed_db_def py_def)
  from add_student_rejects [where flt = no_faults and db = closed_db and code = "py ''ZZ99''"
      and sid = "py ''S-7Q2K''" and now = 3, OF c] absent
  have one: "add_student no_faults closed_db (py ''S-7Q2K'') (py ''ZZ99'') 3 = (Inr False, closed_db)"
    by blast
  from add_student_rejects [where flt = no_faults and db = closed_db and code = "py ''AB12''"
      and sid = "py ''S-7Q2K''" and now = 3, OF c] closed status
  have "add_student no_faults closed_db (py ''S-7Q2K'') (py ''AB12'') 3 = (Inr False, closed_db)"
    by (auto simp: closed_db_def)
  with one show ?thesis by simp
qed

text \<open>
  Claim C9. When the classroom exists and is active and the student id is already in the
  \<open>students\<close> table, the \<open>INSERT\<close> violates the \<open>UNIQUE\<close> constraint, the
  \<open>IntegrityError\<close> is caught at line 225, and \<open>add_student\<close> returns \<open>False\<close> with the
  store unchanged.
\<close>

theorem add_student_duplicate:
  assumes "flt Connect = None"
    and "matching_classrooms db code = c # cs" and "c_status c = Some (py ''active'')"
    and "\<exists>s \<in> set (students db). s_student_id s = sid"
  shows "add_student flt db sid code now = (Inr False, db)"
proof -
  from assms(4) have "list_ex (\<lambda>s. s_student_id s = sid) (students db)"
    by (simp add: list_ex_iff)
  then have "insert_student db \<lparr>s_student_id = sid, s_class_code = code, s_joined_at = now\<rparr>
      = Inl IntegrityError"
    by (simp add: insert_student_def)
  with assms(1-3) show ?thesis
    by (simp add: add_student_def split: option.splits)
qed

theorem add_student_duplicate_witness:
  "add_student no_faults joined_db (py ''S-7Q2K'') (py ''AB12'') 3 = (Inr False, joined_db)"
proof -
  have c: "no_faults Connect = None" by (simp add: no_faults_def)
  have m: "matching_classrooms joined_db (py ''AB12'') = hd (classrooms joined_db) # []"
    by (simp add: matching_classrooms_def joined_db_def)
  have a: "c_status (hd (classrooms joined_db)) = Some (py ''active'')"
    by (simp add: joined_db_def)
  have s: "\<exists>s \<in> set (students joined_db). s_student_id s = py ''S-7Q2K''"
    by (simp add: joined_db_def)
  show ?thesis
    by (rule add_student_duplicate [where flt = no_faults and db = joined_db
          and c = "hd (classrooms joined_db)" and cs = "[]", OF c m a s])
qed

text \<open>
  Claim C3 does not hold of the code: \<open>get_classroom_students\<close> has no \<open>try\<close>, so a
  \<open>sqlite3.Error\<close> raised by its \<open>SELECT\<close> reaches the caller.
\<close>

theorem get_classroom_students_raises:
  "get_classroom_students (no_faults(Select := Some OperationalError)) db code
     = Inl (SqliteError OperationalError)"
  by (simp add: get_classroom_students_def no_faults_def)

text \<open>
  The seven other operations do catch it: once the connection is open, none of them
  lets a \<open>sqlite3.Error\<close> out.
\<close>

lemma siblings_catch_storage_errors:
  assumes "flt Connect = None"
  shows "fst (create_classroom flt db code teacher question now) \<noteq> Inl (SqliteError e)"
    and "fst (add_student flt db sid code now) \<noteq> Inl (SqliteError e)"
    and "fst (save_answer flt convert dumps db sid code question answer evaluation now)
           \<noteq> Inl (SqliteError e)"
    and "fst (update_classroom_question flt db code question) \<noteq> Inl (SqliteError e)"
    and "get_classroom_info flt db code \<noteq> Inl (SqliteError e)"
    and "get_answers_for_question flt repr loads db code question \<noteq> Inl (SqliteError e)"
    and "get_classroom_data flt db code \<noteq> Inl (SqliteError e)"
proof -
  show "fst (create_classroom flt db code teacher question now) \<noteq> Inl (SqliteError e)"
    using assms by (simp add: create_classroom_def split: option.splits sum.splits)
  show "fst (add_student flt db sid code now) \<noteq> Inl (SqliteError e)"
    using assms by (simp add: add_student_def split: option.splits sum.splits list.splits)
  show "fst (save_answer flt convert dumps db sid code question answer evaluation now)
           \<noteq> Inl (SqliteError e)"
    using assms
    by (auto simp: save_answer_def dict_get_def split: option.splits sum.splits
        elim: caught.elims)
  show "fst (update_classroom_question flt db code question) \<noteq> Inl (SqliteError e)"
    using assms by (simp add: update_classroom_question_def split: option.splits)
  show "get_classroom_info flt db code \<noteq> Inl (SqliteError e)"
    using assms by (simp add: get_classroom_info_def split: option.splits list.splits)
  show "get_answers_for_question flt repr loads db code question \<noteq> Inl (SqliteError e)"
    using assms
    by (auto simp: get_answers_for_question_def Let_def split: option.splits
        elim: caught.elims)
  show "get_classroom_data flt db code \<noteq> Inl (SqliteError e)"
    using assms by (simp add: get_classroom_data_def split: option.splits)
qed











section \<open>The student session of \<open>app.py\<close>\<close>














end
